theory Spec2Isabelle
  imports Complex_Main "HOL-Library.Word"
begin

section \<open>Python values shared by the three modules\<close>

text \<open>
  Exceptions are values. Every constructor stands for a class derived from Python's
  \<open>Exception\<close>, so each of them is caught by an \<open>except Exception\<close> clause.
  (\<open>KeyboardInterrupt\<close> and \<open>SystemExit\<close>, which are not derived from it, end the
  process and are not modelled.)
\<close>

datatype exn =
    ValueError string
  | IndexError string
  | KeyError string
  | UnicodeDecodeError
  | UnboundLocalError string
  | CalledProcessError int string string string
  | OSError string
  | Exception string

text \<open>The values kept in the dictionaries that are built for logging.\<close>

datatype val = VNone | VBool bool | VInt int | VNum real | VStr string | VList "val list"

text \<open>
  A Python dictionary with string keys, as the list of its items in insertion order
  (keys are distinct). \<open>d[k] = v\<close> replaces the value of a key that is present and
  appends the item otherwise; \<open>d.update(other)\<close> does so for every item of \<open>other\<close>.
\<close>

type_synonym dict = "(string \<times> val) list"

fun setitem :: "dict \<Rightarrow> string \<Rightarrow> val \<Rightarrow> dict" where
  "setitem [] k v = [(k, v)]"
| "setitem ((k', v') # d) k v = (if k' = k then (k, v) # d else (k', v') # setitem d k v)"

definition dict_update :: "dict \<Rightarrow> dict \<Rightarrow> dict" where
  "dict_update d other = fold (\<lambda>(k, v) d. setitem d k v) other d"

definition has_key :: "dict \<Rightarrow> string \<Rightarrow> bool" where
  "has_key d k = (map_of d k \<noteq> None)"

section \<open>folding/validators/reward.py\<close>

subsection \<open>Data\<close>

text \<open>
  A worker response, with the three attributes \<open>get_energies\<close> reads:
  \<open>resp.md_output\<close>, \<open>resp.axon.hotkey\<close> and \<open>resp.dendrite.status_code\<close>
  (which the transport leaves at \<open>None\<close> when no answer came back).
\<close>

record 'm response =
  md_output :: 'm
  hotkey :: string
  status_code :: "int option"

text \<open>
  A pandas data frame as the list of its rows, each row a map from column name to value.
  \<open>df.iloc[-1]\<close> raises \<open>IndexError\<close> on a frame without rows and \<open>row[c]\<close> raises
  \<open>KeyError\<close> when the column is missing.
\<close>

type_synonym dataframe = "(string \<rightharpoonup> real) list"

definition iloc_last :: "dataframe \<Rightarrow> exn + (string \<rightharpoonup> real)" where
  "iloc_last df = (if df = [] then Inl (IndexError ''single positional indexer is out-of-bounds'')
                   else Inr (last df))"

definition getitem :: "(string \<rightharpoonup> 'v) \<Rightarrow> string \<Rightarrow> exn + 'v" where
  "getitem d k = (case d k of None \<Rightarrow> Inl (KeyError k) | Some v \<Rightarrow> Inr v)"

definition last_value :: "dataframe \<Rightarrow> string \<Rightarrow> exn + real" where
  "last_value df c = (case iloc_last df of Inl e \<Rightarrow> Inl e | Inr row \<Rightarrow> getitem row c)"

text \<open>
  The class \<open>Protein\<close> lives in \<open>folding/validators/protein.py\<close>, outside the three
  modules modelled here. Its four methods used here are therefore parameters. Each of them
  runs on the mutable protein object (the state \<open>'s\<close>), returns or raises, and leaves a
  new state behind in both cases.
\<close>

record ('s, 'm) protein_ops =
  process_md_output :: "'m \<Rightarrow> string \<Rightarrow> 's \<Rightarrow> (exn + bool) \<times> 's"
  get_energy :: "string \<Rightarrow> 's \<Rightarrow> (exn + dataframe) \<times> 's"
  get_rmsd :: "'s \<Rightarrow> (exn + dataframe) \<times> 's"
  is_run_valid :: "real \<Rightarrow> string \<Rightarrow> 's \<Rightarrow> (exn + bool \<times> real) \<times> 's"

text \<open>The dictionary \<open>event\<close> of \<open>get_energies\<close>: four lists under four fixed keys.\<close>

record event =
  is_valid :: "bool list"
  checked_energy :: "real list"
  reported_energy :: "real list"
  rmsds :: "real list"

subsection \<open>The loop body\<close>

text \<open>
  What one pass through the \<open>try\<close> block does for one response: it leaves by
  \<open>continue\<close> (\<open>Skipped\<close>), by an exception that the \<open>except Exception\<close> clause
  catches and logs (\<open>Caught\<close>), or it reaches the four assignments with the values
  \<open>is_valid\<close>, \<open>checked_energy\<close>, \<open>energy\<close> and \<open>rmsd\<close> (\<open>Scored\<close>).
  Calls to the logger are not modelled.
\<close>

datatype outcome = Skipped | Caught exn | Scored bool real real real

definition process_response ::
  "('s, 'm) protein_ops \<Rightarrow> 'm response \<Rightarrow> 's \<Rightarrow> outcome \<times> 's" where
  "process_response P resp s =
    (case process_md_output P (md_output resp) (hotkey resp) s of
       (Inl e, s1) \<Rightarrow> (Caught e, s1)
     | (Inr parsed, s1) \<Rightarrow>
         if \<not> parsed then (Skipped, s1)
         else if status_code resp \<noteq> Some 200 then (Skipped, s1)
         else (case get_energy P ''Potential'' s1 of
            (Inl e, s2) \<Rightarrow> (Caught e, s2)
          | (Inr df, s2) \<Rightarrow>
              (case last_value df ''energy'' of
                 Inl e \<Rightarrow> (Caught e, s2)
               | Inr energy \<Rightarrow>
                   (case get_rmsd P s2 of
                      (Inl e, s3) \<Rightarrow> (Caught e, s3)
                    | (Inr df', s3) \<Rightarrow>
                        (case last_value df' ''rmsd'' of
                           Inl e \<Rightarrow> (Caught e, s3)
                         | Inr rmsd \<Rightarrow>
                             if energy = 0 then (Skipped, s3)
                             else (case is_run_valid P energy (hotkey resp) s3 of
                                (Inl e, s4) \<Rightarrow> (Caught e, s4)
                              | (Inr (valid, checked), s4) \<Rightarrow>
                                  (Scored valid checked energy rmsd, s4)))))))"

text \<open>The assignments at index \<open>i\<close> that end the \<open>try\<close> block.\<close>

fun record_outcome :: "nat \<Rightarrow> outcome \<Rightarrow> real list \<times> event \<Rightarrow> real list \<times> event" where
  "record_outcome i (Scored valid checked energy rmsd) (energies, ev) =
     (energies[i := (if valid then energy else 0)],
      ev\<lparr>is_valid := (is_valid ev)[i := valid],
         checked_energy := (checked_energy ev)[i := checked],
         reported_energy := (reported_energy ev)[i := energy],
         rmsds := (rmsds ev)[i := rmsd]\<rparr>)"
| "record_outcome i Skipped acc = acc"
| "record_outcome i (Caught e) acc = acc"

subsection \<open>The function\<close>

text \<open>
  \<open>for i, (uid, resp) in enumerate(zip(uids, responses))\<close>: the index counts up from the
  start value, the protein object is threaded through the passes.
\<close>

fun get_energies_loop ::
  "('s, 'm) protein_ops \<Rightarrow> nat \<Rightarrow> (int \<times> 'm response) list \<Rightarrow>
     's \<times> real list \<times> event \<Rightarrow> 's \<times> real list \<times> event" where
  "get_energies_loop P i [] st = st"
| "get_energies_loop P i ((uid, resp) # rest) (s, acc) =
     (case process_response P resp s of
        (out, s') \<Rightarrow> get_energies_loop P (Suc i) rest (s', record_outcome i out acc))"

definition empty_arrays :: "nat \<Rightarrow> real list \<times> event" where
  "empty_arrays n =
     (replicate n 0,
      \<lparr>is_valid = replicate n False, checked_energy = replicate n 0,
       reported_energy = replicate n 0, rmsds = replicate n 0\<rparr>)"

text \<open>
  Python returns \<open>(energies, event)\<close> and has changed the protein object in place; the
  model returns the object as a third component.
\<close>

definition get_energies ::
  "('s, 'm) protein_ops \<Rightarrow> 's \<Rightarrow> 'm response list \<Rightarrow> int list \<Rightarrow> real list \<times> event \<times> 's" where
  "get_energies P protein responses uids =
     (case get_energies_loop P 0 (zip uids responses) (protein, empty_arrays (length uids)) of
        (protein', energies, ev) \<Rightarrow> (energies, ev, protein'))"

subsection \<open>Vocabulary of the statements\<close>

text \<open>The protein object as the pass for response \<open>i\<close> finds it.\<close>

definition protein_before :: "('s, 'm) protein_ops \<Rightarrow> 's \<Rightarrow> 'm response list \<Rightarrow> nat \<Rightarrow> 's" where
  "protein_before P s responses i =
     fold (\<lambda>resp s. snd (process_response P resp s)) (take i responses) s"

text \<open>The outcome of the pass for worker \<open>i\<close> inside \<open>get_energies\<close>.\<close>

definition outcome_at :: "('s, 'm) protein_ops \<Rightarrow> 's \<Rightarrow> 'm response list \<Rightarrow> nat \<Rightarrow> outcome" where
  "outcome_at P s responses i =
     fst (process_response P (responses ! i) (protein_before P s responses i))"

text \<open>Position \<open>i\<close> of the five output arrays, read together.\<close>

definition entry :: "real list \<times> event \<Rightarrow> nat \<Rightarrow> real \<times> bool \<times> real \<times> real \<times> real" where
  "entry acc i = (case acc of (energies, ev) \<Rightarrow>
     (energies ! i, is_valid ev ! i, checked_energy ev ! i, reported_energy ev ! i, rmsds ev ! i))"

definition sized :: "nat \<Rightarrow> real list \<times> event \<Rightarrow> bool" where
  "sized n acc = (case acc of (energies, ev) \<Rightarrow>
     length energies = n \<and> length (is_valid ev) = n \<and> length (checked_energy ev) = n \<and>
     length (reported_energy ev) = n \<and> length (rmsds ev) = n)"

text \<open>What a pass leaves at its own position when the position held the initial values.\<close>

fun expected :: "outcome \<Rightarrow> real \<times> bool \<times> real \<times> real \<times> real" where
  "expected (Scored valid checked energy rmsd) =
     ((if valid then energy else 0), valid, checked, energy, rmsd)"
| "expected Skipped = (0, False, 0, 0, 0)"
| "expected (Caught e) = (0, False, 0, 0, 0)"

text \<open>A pass that reached the four assignments.\<close>

definition scored :: "outcome \<Rightarrow> bool" where
  "scored out = (case out of Scored _ _ _ _ \<Rightarrow> True | _ \<Rightarrow> False)"

subsection \<open>A small protein class to run the function on\<close>

text \<open>
  A stand-in for \<open>Protein\<close>: the object is the energy trajectory parsed last, the bundle
  a worker returns is the trajectory itself. Parsing refuses a bundle sent under an empty
  hotkey, a run counts as valid when its final energy is negative.
\<close>

definition demo_ops :: "(real list, real list) protein_ops" where
  "demo_ops =
     \<lparr>process_md_output = (\<lambda>m hk s. if hk = [] then (Inr False, s) else (Inr True, m)),
      get_energy = (\<lambda>data_type s. (Inr (map (\<lambda>e. [''energy'' \<mapsto> e]) s), s)),
      get_rmsd = (\<lambda>s. (Inr [[''rmsd'' \<mapsto> 1]], s)),
      is_run_valid = (\<lambda>energy hk s. (Inr (energy < 0, energy), s))\<rparr>"

definition demo_responses :: "real list response list" where
  "demo_responses =
     [\<lparr>md_output = [-100, -542], hotkey = ''A'', status_code = Some 200\<rparr>,
      \<lparr>md_output = [-3], hotkey = ''B'', status_code = Some 500\<rparr>,
      \<lparr>md_output = [5, 0], hotkey = ''C'', status_code = Some 200\<rparr>,
      \<lparr>md_output = [], hotkey = ''D'', status_code = Some 200\<rparr>,
      \<lparr>md_output = [-7], hotkey = ''E'', status_code = Some 200\<rparr>]"

section \<open>folding/utils/ops.py\<close>

unbundle bit_operations_syntax

subsection \<open>The MD5 digest of \<open>hashlib\<close>\<close>

text \<open>
  \<open>hashlib.md5(data).hexdigest()\<close>, following RFC 1321: the message is padded to a
  multiple of 64 bytes, each block of sixteen little-endian 32-bit words goes through 64
  steps, and the four state words are printed as 32 lower-case hexadecimal digits.
\<close>

definition md5_K :: "32 word list" where
  "md5_K =
     [0xd76aa478, 0xe8c7b756, 0x242070db, 0xc1bdceee,
      0xf57c0faf, 0x4787c62a, 0xa8304613, 0xfd469501,
      0x698098d8, 0x8b44f7af, 0xffff5bb1, 0x895cd7be,
      0x6b901122, 0xfd987193, 0xa679438e, 0x49b40821,
      0xf61e2562, 0xc040b340, 0x265e5a51, 0xe9b6c7aa,
      0xd62f105d, 0x02441453, 0xd8a1e681, 0xe7d3fbc8,
      0x21e1cde6, 0xc33707d6, 0xf4d50d87, 0x455a14ed,
      0xa9e3e905, 0xfcefa3f8, 0x676f02d9, 0x8d2a4c8a,
      0xfffa3942, 0x8771f681, 0x6d9d6122, 0xfde5380c,
      0xa4beea44, 0x4bdecfa9, 0xf6bb4b60, 0xbebfbc70,
      0x289b7ec6, 0xeaa127fa, 0xd4ef3085, 0x04881d05,
      0xd9d4d039, 0xe6db99e5, 0x1fa27cf8, 0xc4ac5665,
      0xf4292244, 0x432aff97, 0xab9423a7, 0xfc93a039,
      0x655b59c3, 0x8f0ccc92, 0xffeff47d, 0x85845dd1,
      0x6fa87e4f, 0xfe2ce6e0, 0xa3014314, 0x4e0811a1,
      0xf7537e82, 0xbd3af235, 0x2ad7d2bb, 0xeb86d391]"

definition md5_s :: "nat list" where
  "md5_s =
     [7, 12, 17, 22, 7, 12, 17, 22, 7, 12, 17, 22, 7, 12, 17, 22,
      5, 9, 14, 20, 5, 9, 14, 20, 5, 9, 14, 20, 5, 9, 14, 20,
      4, 11, 16, 23, 4, 11, 16, 23, 4, 11, 16, 23, 4, 11, 16, 23,
      6, 10, 15, 21, 6, 10, 15, 21, 6, 10, 15, 21, 6, 10, 15, 21]"

definition rotl32 :: "nat \<Rightarrow> 32 word \<Rightarrow> 32 word" where
  "rotl32 n x = push_bit n x OR drop_bit (32 - n) x"

definition md5_step ::
  "32 word list \<Rightarrow> nat \<Rightarrow> 32 word \<times> 32 word \<times> 32 word \<times> 32 word \<Rightarrow>
     32 word \<times> 32 word \<times> 32 word \<times> 32 word" where
  "md5_step M i st = (case st of (A, B, C, D) \<Rightarrow>
     (let (F, g) =
            (if i < 16 then ((B AND C) OR (NOT B AND D), i)
             else if i < 32 then ((D AND B) OR (NOT D AND C), (5 * i + 1) mod 16)
             else if i < 48 then (B XOR C XOR D, (3 * i + 5) mod 16)
             else (C XOR (B OR NOT D), (7 * i) mod 16))
      in (D, B + rotl32 (md5_s ! i) (F + A + md5_K ! i + M ! g), B, C)))"

definition le_word :: "string \<Rightarrow> 32 word" where
  "le_word bs = foldr (\<lambda>b w. of_char b + 256 * w) bs 0"

definition md5_block ::
  "32 word \<times> 32 word \<times> 32 word \<times> 32 word \<Rightarrow> string \<Rightarrow>
     32 word \<times> 32 word \<times> 32 word \<times> 32 word" where
  "md5_block st blk = (case st of (a0, b0, c0, d0) \<Rightarrow>
     (let M = map (\<lambda>j. le_word (take 4 (drop (4 * j) blk))) [0..<16]
      in case fold (md5_step M) [0..<64] st of
           (A, B, C, D) \<Rightarrow> (a0 + A, b0 + B, c0 + C, d0 + D)))"

text \<open>The \<open>k\<close> low bytes of a word, least significant first.\<close>

definition le_bytes :: "nat \<Rightarrow> 'a::len word \<Rightarrow> string" where
  "le_bytes k w = map (\<lambda>j. char_of (unat (take_bit 8 (drop_bit (8 * j) w)))) [0..<k]"

definition md5_pad :: "string \<Rightarrow> string" where
  "md5_pad msg =
     msg @ [char_of (128 :: nat)] @
     replicate ((119 - length msg mod 64) mod 64) (char_of (0 :: nat)) @
     le_bytes 8 (8 * of_nat (length msg) :: 64 word)"

definition hex_digit :: "nat \<Rightarrow> char" where
  "hex_digit n = ''0123456789abcdef'' ! n"

definition hex_byte :: "char \<Rightarrow> string" where
  "hex_byte c = [hex_digit (of_char c div 16), hex_digit (of_char c mod 16)]"

definition md5 :: "string \<Rightarrow> string" where
  "md5 msg =
     (let padded = md5_pad msg;
          blocks = map (\<lambda>k. take 64 (drop (64 * k) padded)) [0..<length padded div 64]
      in case fold (\<lambda>blk st. md5_block st blk) blocks
                (0x67452301, 0xefcdab89, 0x98badcfe, 0x10325476) of
           (a, b, c, d) \<Rightarrow>
             concat (map hex_byte (concat (map (le_bytes 4) [a, b, c, d]))))"

subsection \<open>Bytes and text\<close>

text \<open>
  A file is the string of its bytes. A Python \<open>str\<close> is represented by its UTF-8
  encoding, so that \<open>bytes.decode()\<close> is the identity on well-formed UTF-8 and raises
  \<open>UnicodeDecodeError\<close> on everything else, and \<open>str.encode()\<close> is the identity.
\<close>

definition LF :: char where
  "LF = CHR 0x0A"

definition continuation :: "nat \<Rightarrow> bool" where
  "continuation b = (128 \<le> b \<and> b \<le> 191)"

fun utf8 :: "nat list \<Rightarrow> bool" where
  "utf8 [] = True"
| "utf8 (a # bs) =
     (if a < 128 then utf8 bs
      else if 194 \<le> a \<and> a \<le> 223 then
        (case bs of b # r \<Rightarrow> continuation b \<and> utf8 r | _ \<Rightarrow> False)
      else if 224 \<le> a \<and> a \<le> 239 then
        (case bs of
           b # c # r \<Rightarrow>
             (if a = 224 then 160 \<le> b \<and> b \<le> 191
              else if a = 237 then 128 \<le> b \<and> b \<le> 159
              else continuation b) \<and>
             continuation c \<and> utf8 r
         | _ \<Rightarrow> False)
      else if 240 \<le> a \<and> a \<le> 244 then
        (case bs of
           b # c # d # r \<Rightarrow>
             (if a = 240 then 144 \<le> b \<and> b \<le> 191
              else if a = 244 then 128 \<le> b \<and> b \<le> 143
              else continuation b) \<and>
             continuation c \<and> continuation d \<and> utf8 r
         | _ \<Rightarrow> False)
      else False)"

definition decode :: "string \<Rightarrow> exn + string" where
  "decode bs = (if utf8 (map of_char bs) then Inr bs else Inl UnicodeDecodeError)"

text \<open>
  \<open>f.readlines()\<close> on a file opened in binary mode: the content is cut after every
  line feed, which stays at the end of its line.
\<close>

fun readlines :: "string \<Rightarrow> string list" where
  "readlines [] = []"
| "readlines (c # cs) =
     (if c = LF then [c] # readlines cs
      else (case readlines cs of [] \<Rightarrow> [[c]] | l # ls \<Rightarrow> (c # l) # ls))"

text \<open>
  The character classes, on ASCII. \<open>str.strip()\<close> and the pattern's \<open>\s\<close> share one
  notion of white space (the codes 9 to 13 and 28 to 32); \<open>\d\<close> is a decimal digit and
  \<open>\w\<close> a letter, a digit or the underscore. Python's classes also hold characters
  beyond ASCII; a byte above 127 belongs to no class here, so the model is exact on
  files whose atom lines are ASCII in the part the pattern reads. For \<open>int(bytes)\<close>
  white space is the codes 9 to 13 and 32.
\<close>

definition is_space :: "char \<Rightarrow> bool" where
  "is_space c = (let n = of_char c :: nat in (9 \<le> n \<and> n \<le> 13) \<or> (28 \<le> n \<and> n \<le> 32))"

definition is_digit :: "char \<Rightarrow> bool" where
  "is_digit c = (let n = of_char c :: nat in 48 \<le> n \<and> n \<le> 57)"

definition is_word :: "char \<Rightarrow> bool" where
  "is_word c = (let n = of_char c :: nat in
     (48 \<le> n \<and> n \<le> 57) \<or> (65 \<le> n \<and> n \<le> 90) \<or> n = 95 \<or> (97 \<le> n \<and> n \<le> 122))"

definition is_byte_space :: "char \<Rightarrow> bool" where
  "is_byte_space c = (let n = of_char c :: nat in (9 \<le> n \<and> n \<le> 13) \<or> n = 32)"

definition strip_with :: "(char \<Rightarrow> bool) \<Rightarrow> string \<Rightarrow> string" where
  "strip_with sp s = rev (dropWhile sp (rev (dropWhile sp s)))"

definition strip :: "string \<Rightarrow> string" where
  "strip s = strip_with is_space s"

text \<open>
  \<open>int(length)\<close> on bytes: white space around, an optional sign, then decimal digits in
  which single underscores may separate digits. (The interpreter's limit on the number of
  digits, 4300 by default, is not modelled.)
\<close>

fun digits_ok :: "string \<Rightarrow> bool" where
  "digits_ok [] = False"
| "digits_ok [c] = is_digit c"
| "digits_ok (c # d # cs) =
     (is_digit c \<and> (if d = CHR ''_'' then cs \<noteq> [] \<and> is_digit (hd cs) \<and> digits_ok cs
                     else digits_ok (d # cs)))"

definition digits_value :: "string \<Rightarrow> int" where
  "digits_value ds =
     fold (\<lambda>c v. 10 * v + (of_char c - 48)) (filter (\<lambda>c. c \<noteq> CHR ''_'') ds) 0"

definition py_int :: "string \<Rightarrow> exn + int" where
  "py_int bs =
     (let s = strip_with is_byte_space bs;
          (neg, ds) = (case s of
                         c # cs \<Rightarrow> if c = CHR ''-'' then (True, cs)
                                   else if c = CHR ''+'' then (False, cs) else (False, s)
                       | [] \<Rightarrow> (False, s))
      in if digits_ok ds then Inr (if neg then - digits_value ds else digits_value ds)
         else Inl (ValueError ''invalid literal for int() with base 10''))"

subsection \<open>The pattern\<close>

text \<open>
  \<open>re.compile(r"\s*(\d+\w+)\s+(\w+\d*\s*\d+)\s+(\-?\d+\.\d+)+")\<close>, matched at the start
  of the line. A piece of the pattern maps the input that is left to the list of inputs
  that can be left after it, in the order in which the backtracking matcher tries them:
  a greedy repetition offers its longest match first. Pieces in sequence are tried
  depth first, so the first element of the final list is the match Python reports.
\<close>

fun star :: "(char \<Rightarrow> bool) \<Rightarrow> string \<Rightarrow> string list" where
  "star c [] = [[]]"
| "star c (x # xs) = (if c x then star c xs else []) @ [x # xs]"

definition plus :: "(char \<Rightarrow> bool) \<Rightarrow> string \<Rightarrow> string list" where
  "plus c s = (case s of [] \<Rightarrow> [] | x # xs \<Rightarrow> if c x then star c xs else [])"

definition lit :: "char \<Rightarrow> string \<Rightarrow> string list" where
  "lit ch s = (case s of [] \<Rightarrow> [] | x # xs \<Rightarrow> if x = ch then [xs] else [])"

definition opt :: "char \<Rightarrow> string \<Rightarrow> string list" where
  "opt ch s = lit ch s @ [s]"

text \<open>The inside of group 1, \<open>\d+\w+\<close>, and of group 2, \<open>\w+\d*\s*\d+\<close>.\<close>

definition residue_token :: "string \<Rightarrow> string list" where
  "residue_token s = [r. a \<leftarrow> plus is_digit s, r \<leftarrow> plus is_word a]"

definition atom_token :: "string \<Rightarrow> string list" where
  "atom_token s =
     [r. a \<leftarrow> plus is_word s, b \<leftarrow> star is_digit a, c \<leftarrow> star is_space b, r \<leftarrow> plus is_digit c]"

text \<open>
  One round of group 3, \<open>\-?\d+\.\d+\<close>, and the greedy repetition \<open>(...)+\<close> of it:
  \<open>rounds\<close> takes the inputs left after a round, in order, and offers for each of them
  first what further rounds can leave and then the input itself.
\<close>

definition coordinate :: "string \<Rightarrow> string list" where
  "coordinate s =
     [r. a \<leftarrow> opt (CHR ''-'') s, b \<leftarrow> plus is_digit a, c \<leftarrow> lit (CHR ''.'') b, r \<leftarrow> plus is_digit c]"

function rounds :: "string list \<Rightarrow> string list" where
  "rounds [] = []"
| "rounds (r # rs) = rounds (coordinate r) @ [r] @ rounds rs"
  by pat_completeness auto
termination
proof (relation "inv_image (less_than <*lex*> less_than)
    (\<lambda>rs. (foldr (\<lambda>r m. max (Suc (length r)) m) rs 0, length rs))")
  show "wf (inv_image (less_than <*lex*> less_than)
    (\<lambda>rs. (foldr (\<lambda>r m. max (Suc (length r)) m) rs 0, length rs)))"
    by (intro wf_inv_image wf_lex_prod wf_less_than)
next
  fix r :: string and rs :: "string list"
  show "(rs, r # rs) \<in> inv_image (less_than <*lex*> less_than)
    (\<lambda>rs. (foldr (\<lambda>r m. max (Suc (length r)) m) rs 0, length rs))"
    by (simp add: max_def)
next
  fix r :: string and rs :: "string list"
  have star_le: "length t \<le> length u" if "t \<in> set (star c u)" for c t u
    using that by (induction u) (auto split: if_splits)
  have plus_lt: "length t < length u" if "t \<in> set (plus c u)" for c t u
    using that star_le[of t c "tl u"] by (cases u) (auto simp: plus_def split: if_splits)
  have opt_le: "length t \<le> length u" if "t \<in> set (opt ch u)" for ch t u
    using that by (cases u) (auto simp: opt_def lit_def split: if_splits)
  have shorter: "length t < length r" if "t \<in> set (coordinate r)" for t
  proof -
    from that obtain a b c where "a \<in> set (opt (CHR ''-'') r)" "b \<in> set (plus is_digit a)"
      "c \<in> set (lit (CHR ''.'') b)" "t \<in> set (plus is_digit c)"
      by (auto simp: coordinate_def)
    then have "length a \<le> length r" "length b < length a" "length t < length c"
      "length c \<le> length b"
      using opt_le plus_lt by (auto simp: lit_def split: list.splits if_splits)
    then show ?thesis by simp
  qed
  have bound: "foldr (\<lambda>r m. max (Suc (length r)) m) ts 0 \<le> n"
    if "\<forall>t\<in>set ts. length t < n" for ts n
    using that by (induction ts) auto
  have "foldr (\<lambda>r m. max (Suc (length r)) m) (coordinate r) 0 \<le> length r"
    by (rule bound) (simp add: shorter)
  then show "(coordinate r, r # rs) \<in> inv_image (less_than <*lex*> less_than)
    (\<lambda>rs. (foldr (\<lambda>r m. max (Suc (length r)) m) rs 0, length rs))"
    by (simp add: max_def)
qed

definition coordinates :: "string \<Rightarrow> string list" where
  "coordinates s = rounds (coordinate s)"

text \<open>What a piece consumed, from the input before and after it.\<close>

definition consumed :: "string \<Rightarrow> string \<Rightarrow> string" where
  "consumed s rest = take (length s - length rest) s"

text \<open>All matches of the whole pattern with their groups 1 and 2, and \<open>pattern.match\<close>.\<close>

definition pattern_matches :: "string \<Rightarrow> (string \<times> string) list" where
  "pattern_matches s =
     [(consumed a b, consumed c d).
        a \<leftarrow> star is_space s, b \<leftarrow> residue_token a, c \<leftarrow> plus is_space b,
        d \<leftarrow> atom_token c, e \<leftarrow> plus is_space d, r \<leftarrow> coordinates e]"

definition pattern_match :: "string \<Rightarrow> (string \<times> string) option" where
  "pattern_match s = (case pattern_matches s of [] \<Rightarrow> None | m # _ \<Rightarrow> Some m)"

subsection \<open>\<open>gro_hash\<close>\<close>

text \<open>
  The body of the loop over the atom lines: what the line adds to \<open>buf\<close>, or the
  exception it raises.
\<close>

definition atom_tokens :: "string \<Rightarrow> exn + string" where
  "atom_tokens raw =
     (case decode raw of
        Inl e \<Rightarrow> Inl e
      | Inr text \<Rightarrow>
          (let line = strip text
           in case pattern_match line of
                None \<Rightarrow> Inl (Exception (''Error parsing line: '' @ line))
              | Some (g1, g2) \<Rightarrow> Inr (g1 @ filter (\<lambda>c. c \<noteq> CHR '' '') g2)))"

fun hash_lines :: "string list \<Rightarrow> string \<Rightarrow> exn + string" where
  "hash_lines [] buf = Inr buf"
| "hash_lines (line # lines) buf =
     (case atom_tokens line of
        Inl e \<Rightarrow> Inl e
      | Inr tokens \<Rightarrow> hash_lines lines (buf @ tokens))"

text \<open>
  \<open>gro_hash\<close> on the content of the file at \<open>gro_path\<close> (opening the file is not
  modelled). \<open>name, length, *lines, _ = f.readlines()\<close> needs three lines at least.
\<close>

definition gro_hash :: "string \<Rightarrow> exn + string" where
  "gro_hash content =
     (case readlines content of
        name # length' # rest \<Rightarrow>
          if rest = [] then Inl (ValueError ''not enough values to unpack'')
          else (case py_int length' of
                  Inl e \<Rightarrow> Inl e
                | Inr n \<Rightarrow>
                    (case hash_lines (butlast rest) [] of
                       Inl e \<Rightarrow> Inl e
                     | Inr buf \<Rightarrow> Inr (md5 (name @ buf))))
      | _ \<Rightarrow> Inl (ValueError ''not enough values to unpack''))"

subsection \<open>Vocabulary of the statements about \<open>gro_hash\<close>\<close>

text \<open>An atom line that decodes and, stripped, matches the pattern.\<close>

definition matches_pattern :: "string \<Rightarrow> bool" where
  "matches_pattern raw =
     (case decode raw of Inl e \<Rightarrow> False | Inr text \<Rightarrow> pattern_match (strip text) \<noteq> None)"

text \<open>What a matching atom line adds to the buffer (nothing is listed for other lines).\<close>

definition tokens_of :: "string \<Rightarrow> string" where
  "tokens_of raw = (case atom_tokens raw of Inl e \<Rightarrow> [] | Inr tokens \<Rightarrow> tokens)"

text \<open>
  The layout of an atom line of a coordinate file: white space, the residue number and
  the residue name written together, the atom name, the atom number, and then the
  coordinates, of which the first is spelled out (sign, digits, point, digits) and all
  that follows it, up to and including the line feed, is the \<open>remainder\<close>.
\<close>

record atom_line =
  indent :: string
  residue_number :: string
  residue_name :: string
  gap1 :: string
  atom_name :: string
  gap2 :: string
  atom_number :: string
  gap3 :: string
  negative :: bool
  whole :: string
  fraction :: string
  remainder :: string

definition render :: "atom_line \<Rightarrow> string" where
  "render a =
     indent a @ residue_number a @ residue_name a @ gap1 a @ atom_name a @ gap2 a @
     atom_number a @ gap3 a @ (if negative a then ''-'' else []) @ whole a @ ''.'' @
     fraction a @ remainder a"




subsection \<open>Some coordinate files\<close>

text \<open>Two atoms of one residue, and the same structure with every coordinate changed.\<close>

definition demo_atoms :: "atom_line list" where
  "demo_atoms =
     [\<lparr>indent = ''    '', residue_number = ''1'', residue_name = ''ALA'', gap1 = ''      '',
       atom_name = ''N'', gap2 = ''    '', atom_number = ''1'', gap3 = ''   '',
       negative = False, whole = ''1'', fraction = ''000'',
       remainder = ''   2.000   3.000'' @ [LF]\<rparr>,
      \<lparr>indent = ''    '', residue_number = ''1'', residue_name = ''ALA'', gap1 = ''     '',
       atom_name = ''CA'', gap2 = ''    '', atom_number = ''2'', gap3 = ''   '',
       negative = False, whole = ''1'', fraction = ''100'',
       remainder = ''   2.100  -3.100'' @ [LF]\<rparr>]"


definition demo_gro :: string where
  "demo_gro =
     ''Protein in water'' @ [LF] @ ''    2'' @ [LF] @
     ''    1ALA      N    1   1.000   2.000   3.000'' @ [LF] @
     ''    1ALA     CA    2   1.100   2.100  -3.100'' @ [LF] @
     ''   4.00000   4.00000   4.00000'' @ [LF]"


text \<open>The first file again, declaring seven atoms and ending in another box line.\<close>

definition demo_gro_recounted :: string where
  "demo_gro_recounted =
     ''Protein in water'' @ [LF] @ ''7'' @ [LF] @
     ''    1ALA      N    1   1.000   2.000   3.000'' @ [LF] @
     ''    1ALA     CA    2   1.100   2.100  -3.100'' @ [LF] @
     ''   9.5 9.5 9.5'' @ [LF]"

text \<open>A file whose second atom line has lost its atom number.\<close>

definition demo_gro_broken :: string where
  "demo_gro_broken =
     ''Protein in water'' @ [LF] @ ''    2'' @ [LF] @
     ''    1ALA      N    1   1.000   2.000   3.000'' @ [LF] @
     ''    1ALA     CA        1.100   2.100  -3.100'' @ [LF] @
     ''   4.00000   4.00000   4.00000'' @ [LF]"



subsection \<open>\<open>run_cmd_commands\<close>\<close>





subsection \<open>Vocabulary of the statements about \<open>run_cmd_commands\<close>\<close>




section \<open>folding/validators/forward.py\<close>

subsection \<open>\<open>select_random_pdb_id\<close> (from ops.py)\<close>

text \<open>
  The pool \<open>PDB_IDS\<close> is a dictionary from family to list of ids or, as the source
  notes, just a list of ids. \<open>random.choice\<close> draws an index from a generator that is
  part of the outside world, and raises \<open>IndexError\<close> on an empty sequence. In the
  function that error, like the \<open>AttributeError\<close> of \<open>keys()\<close> on a list, lands in
  the bare \<open>except\<close>, which sets \<open>choices = PDB_IDS\<close>; the \<open>finally\<close> clause returns a
  random element when \<open>choices\<close> is not empty, and otherwise the \<open>while True\<close> loop
  goes round again. The function need not return: not returning is the value \<open>None\<close>.
\<close>

datatype pdb_ids = Families "(string \<times> string list) list" | Plain "string list"

definition random_choice :: "(nat \<Rightarrow> 'w \<Rightarrow> nat \<times> 'w) \<Rightarrow> 'a list \<Rightarrow> 'w \<Rightarrow> 'a \<times> 'w" where
  "random_choice rng xs w = (case rng (length xs) w of (i, w') \<Rightarrow> (xs ! (i mod length xs), w'))"

partial_function (option) select_random_pdb_id ::
  "(nat \<Rightarrow> 'w \<Rightarrow> nat \<times> 'w) \<Rightarrow> pdb_ids \<Rightarrow> 'w \<Rightarrow> (string \<times> 'w) option" where
  "select_random_pdb_id rng PDB_IDS w =
     (case PDB_IDS of
        Plain ids \<Rightarrow>
          if ids = [] then select_random_pdb_id rng PDB_IDS w
          else Some (random_choice rng ids w)
      | Families items \<Rightarrow>
          if items = [] then select_random_pdb_id rng PDB_IDS w
          else (case random_choice rng items w of
                  ((family, choices), w1) \<Rightarrow>
                    if choices = [] then select_random_pdb_id rng PDB_IDS w1
                    else Some (random_choice rng choices w1)))"

declare select_random_pdb_id.simps [code]

subsection \<open>Configuration, collaborators and effects\<close>

text \<open>
  \<open>self.config\<close>: the three top-level options that \<open>parse_config\<close> reads, the section
  \<open>config.protein\<close>, and the two options of \<open>config.neuron\<close> passed to \<open>run_step\<close>.
\<close>

record protein_config =
  protein_pdb_id :: "string option"
  protein_ff :: "string option"
  protein_water :: "string option"
  protein_box :: "string option"

record config =
  config_ff :: "string option"
  config_water :: "string option"
  config_box :: "string option"
  config_protein :: protein_config
  sample_size :: nat
  timeout :: real

definition parse_config :: "config \<Rightarrow> string list" where
  "parse_config c =
     (if config_ff c \<noteq> None then [''FF''] else []) @
     (if config_water c \<noteq> None then [''WATER''] else []) @
     (if config_box c \<noteq> None then [''BOX''] else [])"

text \<open>The keyword arguments of the call \<open>Protein(pdb_id=..., ff=..., ...)\<close>.\<close>

record protein_args =
  pdb_id :: "string option"
  ff :: val
  water :: val
  box :: val
  config :: protein_config

text \<open>
  The collaborators of \<open>forward\<close>, all of them outside the three modules modelled
  here except \<open>run_step\<close>: the classes \<open>HyperParameters\<close> (objects \<open>'h\<close>) and \<open>Protein\<close> (objects
  \<open>'p\<close>), the random generator, the clock and the pool of ids. Each operation runs on
  the outside world \<open>'w\<close> and returns or raises. \<open>run_step\<close>, which sends the protein to
  the workers over the network, scores the answers and returns the event of the step, is
  taken as one operation. \<open>log_event\<close> is the sink of the events: the model records the
  call and its argument.
\<close>

record ('w, 'p, 'h) env =
  PDB_IDS :: pdb_ids
  rng :: "nat \<Rightarrow> 'w \<Rightarrow> nat \<times> 'w"
  time :: "'w \<Rightarrow> real \<times> 'w"
  HyperParameters :: "string list \<Rightarrow> 'w \<Rightarrow> (exn + 'h) \<times> 'w"
  TOTAL_COMBINATIONS :: "'h \<Rightarrow> nat"
  sample_hyperparameters :: "'h \<Rightarrow> 'w \<Rightarrow> (exn + dict) \<times> 'w"
  Protein :: "protein_args \<Rightarrow> 'w \<Rightarrow> (exn + 'p) \<times> 'w"
  attr_ff :: "'p \<Rightarrow> val"
  attr_water :: "'p \<Rightarrow> val"
  attr_box :: "'p \<Rightarrow> val"
  protein_forward :: "'p \<Rightarrow> 'w \<Rightarrow> (exn + unit) \<times> 'w"
  run_step :: "'p \<Rightarrow> nat \<Rightarrow> real \<Rightarrow> 'w \<Rightarrow> (exn + dict) \<times> 'w"

datatype 'p effect =
    Protein_init protein_args
  | Protein_forward 'p
  | Run_step 'p
  | Log_event dict

text \<open>
  The state of a running \<open>forward\<close>: the outside world, the local variables that live
  across iterations and rounds (a Python local is unbound until its first assignment and
  then keeps its last value), and the effects so far.
\<close>

record ('w, 'p) frame =
  world :: 'w
  local_event :: "dict option"
  local_sampled_combination :: "dict option"
  local_protein :: "'p option"
  local_hps :: "dict option"
  trace :: "'p effect list"

definition initial_frame :: "'w \<Rightarrow> ('w, 'p) frame" where
  "initial_frame w =
     \<lparr>world = w, local_event = None, local_sampled_combination = None,
      local_protein = None, local_hps = None, trace = []\<rparr>"

subsection \<open>One attempt: the body of the \<open>for\<close> loop\<close>

text \<open>\<open>pinned if pinned is not None else sampled_combination[key]\<close>\<close>

definition pinned_or_sampled :: "string option \<Rightarrow> dict \<Rightarrow> string \<Rightarrow> exn + val" where
  "pinned_or_sampled pinned sampled_combination key =
     (case pinned of
        Some v \<Rightarrow> Inr (VStr v)
      | None \<Rightarrow> getitem (map_of sampled_combination) key)"

definition protein_arguments :: "config \<Rightarrow> dict \<Rightarrow> exn + protein_args" where
  "protein_arguments cfg sampled_combination =
     (case pinned_or_sampled (protein_ff (config_protein cfg)) sampled_combination ''FF'' of
        Inl e \<Rightarrow> Inl e
      | Inr f \<Rightarrow>
     (case pinned_or_sampled (protein_water (config_protein cfg)) sampled_combination ''WATER'' of
        Inl e \<Rightarrow> Inl e
      | Inr w \<Rightarrow>
     (case pinned_or_sampled (protein_box (config_protein cfg)) sampled_combination ''BOX'' of
        Inl e \<Rightarrow> Inl e
      | Inr b \<Rightarrow>
          Inr \<lparr>pdb_id = protein_pdb_id (config_protein cfg), ff = f, water = w, box = b,
               config = config_protein cfg\<rparr>)))"

text \<open>
  The \<open>try\<close> block: sample, construct the protein, build \<open>hps\<close>, prepare the protein
  (\<open>protein.forward()\<close>). It ends normally (\<open>None\<close>) or with an exception.
\<close>

definition try_block ::
  "('w, 'p, 'h) env \<Rightarrow> config \<Rightarrow> 'h \<Rightarrow> ('w, 'p) frame \<Rightarrow> exn option \<times> ('w, 'p) frame" where
  "try_block E cfg hp_sampler fr =
     (case sample_hyperparameters E hp_sampler (world fr) of
        (Inl e, w1) \<Rightarrow> (Some e, fr\<lparr>world := w1\<rparr>)
      | (Inr sampled_combination, w1) \<Rightarrow>
          (let fr1 = fr\<lparr>world := w1, local_sampled_combination := Some sampled_combination\<rparr>
           in case protein_arguments cfg sampled_combination of
                Inl e \<Rightarrow> (Some e, fr1)
              | Inr args \<Rightarrow>
                  (case Protein E args w1 of
                     (Inl e, w2) \<Rightarrow>
                       (Some e, fr1\<lparr>world := w2, trace := trace fr1 @ [Protein_init args]\<rparr>)
                   | (Inr p, w2) \<Rightarrow>
                       (let fr2 = fr1\<lparr>world := w2, local_protein := Some p,
                                      trace := trace fr1 @ [Protein_init args]\<rparr>
                        in case getitem (map_of sampled_combination) ''BOX_DISTANCE'' of
                             Inl e \<Rightarrow> (Some e, fr2)
                           | Inr box_distance \<Rightarrow>
                               (let hps = [(''FF'', attr_ff E p), (''WATER'', attr_water E p),
                                           (''BOX'', attr_box E p),
                                           (''BOX_DISTANCE'', box_distance)];
                                    fr3 = fr2\<lparr>local_hps := Some hps,
                                              trace := trace fr2 @ [Protein_forward p]\<rparr>
                                in case protein_forward E p w2 of
                                     (Inl e, w3) \<Rightarrow> (Some e, fr3\<lparr>world := w3\<rparr>)
                                   | (Inr u, w3) \<Rightarrow> (None, fr3\<lparr>world := w3\<rparr>))))))"

text \<open>
  The \<open>except Exception\<close> clause formats \<open>sampled_combination\<close> into the error message
  before it sets the status, so it raises itself when that variable is unbound. The
  result is the exception left pending for the \<open>finally\<close> clause, and the event.
\<close>

definition except_clause :: "('w, 'p) frame \<Rightarrow> dict \<Rightarrow> exn option \<times> dict" where
  "except_clause fr event =
     (case local_sampled_combination fr of
        None \<Rightarrow> (Some (UnboundLocalError ''sampled_combination''), event)
      | Some c \<Rightarrow> (None, setitem event ''validator_search_status'' (VBool False)))"

text \<open>How an attempt leaves the loop body.\<close>

datatype control = Continue | Break | Raise exn

text \<open>
  The \<open>finally\<close> clause. It reads \<open>hps\<close>, which the \<open>try\<close> block may not have
  assigned. An exception raised here replaces a pending one; \<open>break\<close> discards a pending
  one; after \<open>log_event\<close> a pending exception goes on.
\<close>

definition finally_clause ::
  "('w, 'p, 'h) env \<Rightarrow> real \<Rightarrow> real \<Rightarrow> string \<Rightarrow> exn option \<Rightarrow> dict \<Rightarrow> ('w, 'p) frame \<Rightarrow>
     ('w, 'p) frame \<times> control" where
  "finally_clause E forward_start_time hp_sampler_time chosen pending event fr =
     (let event1 = setitem event ''pdb_id'' (VStr chosen)
      in case local_hps fr of
           None \<Rightarrow> (fr\<lparr>local_event := Some event1\<rparr>, Raise (UnboundLocalError ''hps''))
         | Some hps \<Rightarrow>
             (let event2 = dict_update event1 hps
              in case time E (world fr) of (t1, w1) \<Rightarrow>
                 (let event3 = setitem event2 ''hp_sample_time'' (VNum (t1 - hp_sampler_time))
                  in case time E w1 of (t2, w2) \<Rightarrow>
                     (let event4 = setitem event3 ''forward_time'' (VNum (t2 - forward_start_time))
                      in if \<not> has_key event4 ''validator_search_status''
                         then (fr\<lparr>world := w2,
                                  local_event :=
                                    Some (setitem event4 ''validator_search_status'' (VBool True))\<rparr>,
                               Break)
                         else (fr\<lparr>world := w2, local_event := Some event4,
                                  trace := trace fr @ [Log_event event4]\<rparr>,
                               case pending of None \<Rightarrow> Continue | Some e \<Rightarrow> Raise e)))))"

definition attempt ::
  "('w, 'p, 'h) env \<Rightarrow> config \<Rightarrow> real \<Rightarrow> string \<Rightarrow> 'h \<Rightarrow> ('w, 'p) frame \<Rightarrow>
     ('w, 'p) frame \<times> control" where
  "attempt E cfg forward_start_time chosen hp_sampler fr =
     (case time E (world fr) of (hp_sampler_time, w0) \<Rightarrow>
        (case try_block E cfg hp_sampler (fr\<lparr>world := w0, local_event := Some []\<rparr>) of
           (None, fr1) \<Rightarrow>
             finally_clause E forward_start_time hp_sampler_time chosen None [] fr1
         | (Some e, fr1) \<Rightarrow>
             (case except_clause fr1 [] of
                (pending, event) \<Rightarrow>
                  finally_clause E forward_start_time hp_sampler_time chosen pending event fr1)))"

subsection \<open>One round: the body of the \<open>while True\<close> loop\<close>

text \<open>
  \<open>for iteration_num in range(hp_sampler.TOTAL_COMBINATIONS)\<close>: the loop ends by
  \<open>break\<close>, by running out (\<open>Continue\<close> after the last attempt), or by an exception.
\<close>

fun search ::
  "('w, 'p, 'h) env \<Rightarrow> config \<Rightarrow> real \<Rightarrow> string \<Rightarrow> 'h \<Rightarrow> nat \<Rightarrow> ('w, 'p) frame \<Rightarrow>
     ('w, 'p) frame \<times> control" where
  "search E cfg forward_start_time chosen hp_sampler 0 fr = (fr, Continue)"
| "search E cfg forward_start_time chosen hp_sampler (Suc k) fr =
     (case attempt E cfg forward_start_time chosen hp_sampler fr of
        (fr', Continue) \<Rightarrow> search E cfg forward_start_time chosen hp_sampler k fr'
      | (fr', Break) \<Rightarrow> (fr', Break)
      | (fr', Raise e) \<Rightarrow> (fr', Raise e))"

text \<open>How a round ends: the loop goes on to the next round, or an exception leaves \<open>forward\<close>.\<close>

datatype 'a round = Next 'a | Raised exn 'a

text \<open>
  After the \<open>for\<close> loop: \<open>continue\<close> when the status of \<open>event\<close> is \<open>False\<close>,
  otherwise \<open>run_step\<close> with \<open>protein\<close>, and the event of the round is logged.
\<close>

definition dispatch ::
  "('w, 'p, 'h) env \<Rightarrow> config \<Rightarrow> real \<Rightarrow> ('w, 'p) frame \<Rightarrow> ('w, 'p) frame round" where
  "dispatch E cfg forward_start_time fr =
     (case local_event fr of
        None \<Rightarrow> Raised (UnboundLocalError ''event'') fr
      | Some event \<Rightarrow>
          (case getitem (map_of event) ''validator_search_status'' of
             Inl e \<Rightarrow> Raised e fr
           | Inr status \<Rightarrow>
               if status = VBool False then Next fr
               else (case local_protein fr of
                       None \<Rightarrow> Raised (UnboundLocalError ''protein'') fr
                     | Some p \<Rightarrow>
                         (case run_step E p (sample_size cfg) (timeout cfg) (world fr) of
                            (Inl e, w1) \<Rightarrow>
                              Raised e (fr\<lparr>world := w1, trace := trace fr @ [Run_step p]\<rparr>)
                          | (Inr miner_event, w1) \<Rightarrow>
                              (case time E w1 of (t, w2) \<Rightarrow>
                                 (let event1 = setitem (dict_update event miner_event)
                                                 ''forward_time'' (VNum (t - forward_start_time))
                                  in Next (fr\<lparr>world := w2, local_event := Some event1,
                                              trace := trace fr @ [Run_step p, Log_event event1]\<rparr>)))))))"

definition round_with ::
  "('w, 'p, 'h) env \<Rightarrow> config \<Rightarrow> real \<Rightarrow> string \<Rightarrow> ('w, 'p) frame \<Rightarrow> ('w, 'p) frame round" where
  "round_with E cfg forward_start_time chosen fr =
     (case HyperParameters E (parse_config cfg) (world fr) of
        (Inl e, w1) \<Rightarrow> Raised e (fr\<lparr>world := w1\<rparr>)
      | (Inr hp_sampler, w1) \<Rightarrow>
          (case search E cfg forward_start_time chosen hp_sampler
                  (TOTAL_COMBINATIONS E hp_sampler) (fr\<lparr>world := w1\<rparr>) of
             (fr1, Raise e) \<Rightarrow> Raised e fr1
           | (fr1, Continue) \<Rightarrow> dispatch E cfg forward_start_time fr1
           | (fr1, Break) \<Rightarrow> dispatch E cfg forward_start_time fr1))"

text \<open>The structure id of the round: the pinned one, or a random one.\<close>

definition choose_pdb_id :: "('w, 'p, 'h) env \<Rightarrow> config \<Rightarrow> 'w \<Rightarrow> (string \<times> 'w) option" where
  "choose_pdb_id E cfg w =
     (case protein_pdb_id (config_protein cfg) of
        None \<Rightarrow> select_random_pdb_id (rng E) (PDB_IDS E) w
      | Some pinned \<Rightarrow> Some (pinned, w))"

definition forward_round ::
  "('w, 'p, 'h) env \<Rightarrow> config \<Rightarrow> ('w, 'p) frame \<Rightarrow> ('w, 'p) frame round option" where
  "forward_round E cfg fr =
     (case time E (world fr) of (forward_start_time, w1) \<Rightarrow>
        (case choose_pdb_id E cfg w1 of
           None \<Rightarrow> None
         | Some (chosen, w2) \<Rightarrow>
             Some (round_with E cfg forward_start_time chosen (fr\<lparr>world := w2\<rparr>))))"

subsection \<open>\<open>forward\<close>\<close>

text \<open>
  \<open>while True\<close>: the function returns only by an exception that leaves a round; a run
  that goes on for ever, or hangs in the selection of an id, has the value \<open>None\<close>.
\<close>

partial_function (option) forward ::
  "('w, 'p, 'h) env \<Rightarrow> config \<Rightarrow> ('w, 'p) frame \<Rightarrow> (exn \<times> ('w, 'p) frame) option" where
  "forward E cfg fr =
     (case forward_round E cfg fr of
        None \<Rightarrow> None
      | Some (Raised e fr') \<Rightarrow> Some (e, fr')
      | Some (Next fr') \<Rightarrow> forward E cfg fr')"

declare forward.simps [code]

subsection \<open>Vocabulary of the statements about \<open>forward\<close>\<close>

text \<open>
  The events handed to \<open>log_event\<close>, the proteins handed to \<open>run_step\<close> and the
  argument records of the calls of \<open>Protein\<close>, read off a list of effects.
\<close>

fun logged :: "'p effect list \<Rightarrow> dict list" where
  "logged [] = []"
| "logged (Log_event event # es) = event # logged es"
| "logged (e # es) = logged es"

fun dispatched :: "'p effect list \<Rightarrow> 'p list" where
  "dispatched [] = []"
| "dispatched (Run_step p # es) = p # dispatched es"
| "dispatched (e # es) = dispatched es"

fun constructed :: "'p effect list \<Rightarrow> protein_args list" where
  "constructed [] = []"
| "constructed (Protein_init args # es) = args # constructed es"
| "constructed (e # es) = constructed es"

text \<open>
  Between two frames, every call of \<open>Protein\<close> passed the id of the configuration.
\<close>

definition built_from_config :: "config \<Rightarrow> ('w, 'p) frame \<Rightarrow> ('w, 'p) frame \<Rightarrow> bool" where
  "built_from_config cfg fr fr' =
     (\<exists>new. constructed (trace fr') = constructed (trace fr) @ new \<and>
            (\<forall>a\<in>set new. pdb_id a = protein_pdb_id (config_protein cfg)))"

text \<open>The frame in which a round ends.\<close>

fun frame_of :: "'a round \<Rightarrow> 'a" where
  "frame_of (Next fr) = fr"
| "frame_of (Raised e fr) = fr"


subsection \<open>A small environment to run \<open>forward\<close> in\<close>

text \<open>
  The world is a counter that every operation advances and the clock reads. The sampler
  has two combinations, the protein object is the record of its constructor arguments,
  and two predicates say which arguments the constructor accepts and which proteins can
  be prepared.
\<close>

definition demo_env ::
  "(protein_args \<Rightarrow> bool) \<Rightarrow> (protein_args \<Rightarrow> bool) \<Rightarrow> (nat, protein_args, string list) env" where
  "demo_env constructible preparable =
     \<lparr>PDB_IDS = Families [(''kinases'', [''1abc'', ''2xyz''])],
      rng = (\<lambda>n w. (0, w + 1)),
      time = (\<lambda>w. (real w, w + 1)),
      HyperParameters = (\<lambda>exclude w. (Inr exclude, w + 1)),
      TOTAL_COMBINATIONS = (\<lambda>h. 2),
      sample_hyperparameters =
        (\<lambda>h w. (Inr [(''FF'', VStr ''amber03''), (''WATER'', VStr ''tip3p''),
                      (''BOX'', VStr ''cubic''), (''BOX_DISTANCE'', VNum 1)], w + 1)),
      Protein = (\<lambda>args w. (if constructible args then Inr args
                            else Inl (ValueError ''no structure id''), w + 1)),
      attr_ff = ff, attr_water = water, attr_box = box,
      protein_forward = (\<lambda>p w. (if preparable p then Inr ()
                                 else Inl (Exception ''pdb2gmx failed''), w + 1)),
      run_step = (\<lambda>p k t w. (Inr [(''uids'', VList [VInt 9, VInt 10])], w + 1))\<rparr>"

definition demo_config :: "string option \<Rightarrow> config" where
  "demo_config pinned =
     \<lparr>config_ff = None, config_water = None, config_box = None,
      config_protein = \<lparr>protein_pdb_id = pinned, protein_ff = None, protein_water = None,
                 protein_box = None\<rparr>,
      sample_size = 10, timeout = 45\<rparr>"

section \<open>Properties of \<open>get_energies\<close>\<close>

subsection \<open>The loop, position by position\<close>

lemma sized_record_outcome: "sized n acc \<Longrightarrow> sized n (record_outcome i out acc)"
  by (cases out; cases acc) (simp_all add: sized_def)

lemma entry_record_outcome:
  "sized n acc \<Longrightarrow> j < n \<Longrightarrow>
   entry (record_outcome i out acc) j = (if j = i \<and> scored out then expected out else entry acc j)"
  by (cases out; cases acc) (auto simp: sized_def entry_def scored_def)

lemma loop_Cons:
  "get_energies_loop P i ((uid, resp) # rest) (s, acc) =
     get_energies_loop P (Suc i) rest
       (snd (process_response P resp s), record_outcome i (fst (process_response P resp s)) acc)"
  by (simp add: case_prod_beta)

lemma loop_state:
  "fst (get_energies_loop P i xs (s, acc)) = fold (\<lambda>resp s. snd (process_response P resp s)) (map snd xs) s"
proof (induction xs arbitrary: i s acc)
  case Nil
  show ?case by simp
next
  case (Cons x xs)
  obtain uid resp where x: "x = (uid, resp)" by (cases x)
  show ?case unfolding x loop_Cons Cons.IH by simp
qed


lemma loop_entry:
  "sized n acc \<Longrightarrow> j < n \<Longrightarrow>
   entry (snd (get_energies_loop P i xs (s, acc))) j =
     (if i \<le> j \<and> j < i + length xs \<and>
         scored (fst (process_response P (snd (xs ! (j - i)))
                  (fold (\<lambda>resp s. snd (process_response P resp s)) (take (j - i) (map snd xs)) s)))
      then expected (fst (process_response P (snd (xs ! (j - i)))
                  (fold (\<lambda>resp s. snd (process_response P resp s)) (take (j - i) (map snd xs)) s)))
      else entry acc j)"
proof (induction xs arbitrary: i s acc)
  case Nil
  then show ?case by auto
next
  case (Cons x xs)
  obtain uid resp where x: "x = (uid, resp)" by (cases x)
  have sz: "sized n (record_outcome i (fst (process_response P resp s)) acc)"
    using Cons.prems(1) by (rule sized_record_outcome)
  note IH = Cons.IH[OF sz Cons.prems(2), of "Suc i" "snd (process_response P resp s)"]
  consider "j < i" | "j = i" | "i < j" by linarith
  then show ?case
  proof cases
    case 1
    then show ?thesis unfolding x loop_Cons IH
      using Cons.prems by (simp add: entry_record_outcome)
  next
    case 2
    then show ?thesis unfolding x loop_Cons IH
      using Cons.prems by (simp add: entry_record_outcome)
  next
    case 3
    then obtain d where d: "j - i = Suc d" "j - Suc i = d" by (cases "j - i") auto
    have "j \<noteq> i" "Suc i \<le> j" "i \<le> j" using 3 by auto
    then show ?thesis unfolding x loop_Cons IH d
      using Cons.prems by (auto simp: entry_record_outcome)
  qed
qed

lemma scored_expected: "\<not> scored out \<Longrightarrow> expected out = (0, False, 0, 0, 0)"
  by (cases out) (simp_all add: scored_def)

lemma get_energies_loop_eq:
  "get_energies P protein responses uids = (energies, ev, protein') \<longleftrightarrow>
   get_energies_loop P 0 (zip uids responses) (protein, empty_arrays (length uids)) =
     (protein', energies, ev)"
  by (auto simp: get_energies_def split: prod.splits)

lemma sized_initial: "sized n (empty_arrays n)"
  by (simp add: sized_def empty_arrays_def)

lemma entry_initial: "j < n \<Longrightarrow> entry (empty_arrays n) j = (0, False, 0, 0, 0)"
  by (simp add: entry_def empty_arrays_def)


lemma get_energies_entry:
  assumes run: "get_energies P protein responses uids = (energies, ev, protein')"
    and j: "j < length uids"
  shows "entry (energies, ev) j =
     (if j < length responses then expected (outcome_at P protein responses j)
      else (0, False, 0, 0, 0))"
proof -
  have "get_energies_loop P 0 (zip uids responses) (protein, empty_arrays (length uids)) =
     (protein', energies, ev)"
    using run by (simp add: get_energies_loop_eq)
  then have acc: "(energies, ev) =
     snd (get_energies_loop P 0 (zip uids responses) (protein, empty_arrays (length uids)))"
    by simp
  have tk: "take j (map snd (zip uids responses)) = take j responses"
    using j by (simp add: map_snd_zip_take min_def)
  show ?thesis
  proof (cases "j < length responses")
    case True
    then have nth: "snd (zip uids responses ! j) = responses ! j" using j by simp
    show ?thesis unfolding acc loop_entry[OF sized_initial j]
      using True j
      by (simp add: nth tk outcome_at_def protein_before_def entry_initial scored_expected)
  next
    case False
    then show ?thesis unfolding acc loop_entry[OF sized_initial j]
      using j by (simp add: entry_initial)
  qed
qed

subsection \<open>One entry per queried worker\<close>


lemma not_scored_non_200:
  "status_code resp \<noteq> Some 200 \<Longrightarrow> \<not> scored (fst (process_response P resp s))"
  by (simp add: process_response_def scored_def split: prod.splits sum.splits)

lemma not_scored_zero_energy:
  assumes "process_md_output P (md_output resp) (hotkey resp) s = (Inr True, s1)"
    and "get_energy P ''Potential'' s1 = (Inr df, s2)"
    and "last_value df ''energy'' = Inr 0"
  shows "\<not> scored (fst (process_response P resp s))"
  using assms by (simp add: process_response_def scored_def split: prod.splits sum.splits)

lemma entry_zero:
  "entry (energies, ev) i = (0, False, 0, 0, 0) \<Longrightarrow>
   energies ! i = 0 \<and> \<not> is_valid ev ! i \<and> checked_energy ev ! i = 0 \<and>
   reported_energy ev ! i = 0 \<and> rmsds ev ! i = 0"
  by (simp add: entry_def)

subsection \<open>Status codes and the zero-energy sentinel\<close>

text \<open>
  Claim C6. A worker whose response carries a transport status code other than 200 is
  marked invalid and its energy entry stays 0 (as do its other diagnostic entries),
  whatever its payload holds and whatever the protein methods do.
\<close>

theorem non_200_status_is_invalid:
  assumes "get_energies P protein responses uids = (energies, ev, protein')"
    and "i < length uids" and "i < length responses"
    and "status_code (responses ! i) \<noteq> Some 200"
  shows "energies ! i = 0 \<and> \<not> is_valid ev ! i \<and> checked_energy ev ! i = 0 \<and>
         reported_energy ev ! i = 0 \<and> rmsds ev ! i = 0"
proof -
  have "\<not> scored (outcome_at P protein responses i)"
    unfolding outcome_at_def using assms(4) by (rule not_scored_non_200)
  then have "entry (energies, ev) i = (0, False, 0, 0, 0)"
    using get_energies_entry[OF assms(1,2)] assms(3) by (simp add: scored_expected)
  then show ?thesis by (rule entry_zero)
qed

text \<open>
  Claim C5. A worker whose response parses and whose final recorded potential energy is
  exactly zero is marked invalid and gets 0 in the energies vector (and in the other
  diagnostic arrays), whatever its status code, its RMSD data and the validity check
  would say.
\<close>

theorem zero_energy_is_invalid:
  assumes "get_energies P protein responses uids = (energies, ev, protein')"
    and "i < length uids" and "i < length responses"
    and "process_md_output P (md_output (responses ! i)) (hotkey (responses ! i))
           (protein_before P protein responses i) = (Inr True, s1)"
    and "get_energy P ''Potential'' s1 = (Inr df, s2)"
    and "last_value df ''energy'' = Inr 0"
  shows "energies ! i = 0 \<and> \<not> is_valid ev ! i \<and> checked_energy ev ! i = 0 \<and>
         reported_energy ev ! i = 0 \<and> rmsds ev ! i = 0"
proof -
  have "\<not> scored (outcome_at P protein responses i)"
    unfolding outcome_at_def using assms(4,5,6) by (rule not_scored_zero_energy)
  then have "entry (energies, ev) i = (0, False, 0, 0, 0)"
    using get_energies_entry[OF assms(1,2)] assms(3) by (simp add: scored_expected)
  then show ?thesis by (rule entry_zero)
qed

subsection \<open>A run on five workers\<close>

text \<open>
  Worker A is valid, B answers with status 500, C reports a final energy of zero, the
  bundle of D is empty so that reading its last energy raises, E is valid again.
\<close>

lemma demo_run:
  "get_energies demo_ops [] demo_responses [9, 10, 11, 12, 13] =
     ([-542, 0, 0, 0, -7],
      \<lparr>is_valid = [True, False, False, False, True],
       checked_energy = [-542, 0, 0, 0, -7],
       reported_energy = [-542, 0, 0, 0, -7],
       rmsds = [1, 0, 0, 0, 1]\<rparr>,
      [-7])"
  by (simp add: get_energies_def empty_arrays_def process_response_def demo_ops_def
      demo_responses_def last_value_def iloc_last_def getitem_def)

lemma demo_protein_before_2: "protein_before demo_ops [] demo_responses 2 = [-3]"
  by (simp add: protein_before_def process_response_def demo_ops_def numeral_2_eq_2
      demo_responses_def last_value_def iloc_last_def getitem_def)



theorem non_200_status_is_invalid_witness:
  "status_code (demo_responses ! 1) \<noteq> Some 200 \<and>
   [-542, 0, 0, 0, -7 :: real] ! 1 = 0 \<and> \<not> [True, False, False, False, True] ! 1"
proof -
  have h: "status_code (demo_responses ! 1) \<noteq> Some 200" by (simp add: demo_responses_def)
  have "(1::nat) < length [9, 10, 11, 12, 13 :: int]" "(1::nat) < length demo_responses"
    by (simp_all add: demo_responses_def)
  from non_200_status_is_invalid[OF demo_run this h] show ?thesis using h by simp
qed

theorem zero_energy_is_invalid_witness:
  "process_md_output demo_ops (md_output (demo_responses ! 2)) (hotkey (demo_responses ! 2))
     (protein_before demo_ops [] demo_responses 2) = (Inr True, [5, 0]) \<and>
   get_energy demo_ops ''Potential'' [5, 0] = (Inr [[''energy'' \<mapsto> 5], [''energy'' \<mapsto> 0]], [5, 0]) \<and>
   last_value [[''energy'' \<mapsto> 5], [''energy'' \<mapsto> 0]] ''energy'' = Inr 0 \<and>
   [-542, 0, 0, 0, -7 :: real] ! 2 = 0 \<and> \<not> [True, False, False, False, True] ! 2"
proof -
  have h1: "process_md_output demo_ops (md_output (demo_responses ! 2)) (hotkey (demo_responses ! 2))
     (protein_before demo_ops [] demo_responses 2) = (Inr True, [5, 0])"
    by (simp add: demo_ops_def demo_responses_def)
  have h2: "get_energy demo_ops ''Potential'' [5, 0] =
      (Inr [[''energy'' \<mapsto> 5], [''energy'' \<mapsto> 0]], [5, 0])"
    by (simp add: demo_ops_def)
  have h3: "last_value [[''energy'' \<mapsto> 5], [''energy'' \<mapsto> 0]] ''energy'' = Inr 0"
    by (simp add: last_value_def iloc_last_def getitem_def)
  have "(2::nat) < length [9, 10, 11, 12, 13 :: int]" "(2::nat) < length demo_responses"
    by (simp_all add: demo_responses_def)
  from zero_energy_is_invalid[OF demo_run this h1 h2 h3] show ?thesis using h1 h2 h3 by simp
qed

section \<open>Properties of \<open>gro_hash\<close>\<close>

subsection \<open>The loop over the atom lines\<close>

lemma atom_tokens_matches:
  "matches_pattern raw \<longleftrightarrow> (\<exists>t. atom_tokens raw = Inr t)"
  by (auto simp: matches_pattern_def atom_tokens_def Let_def split: sum.splits option.splits)

lemma atom_tokens_tokens_of:
  "matches_pattern raw \<Longrightarrow> atom_tokens raw = Inr (tokens_of raw)"
  by (auto simp: atom_tokens_matches tokens_of_def)

lemma hash_lines_all:
  "\<forall>l\<in>set lines. matches_pattern l \<Longrightarrow>
   hash_lines lines buf = Inr (buf @ concat (map tokens_of lines))"
  by (induction lines arbitrary: buf) (simp_all add: atom_tokens_tokens_of)

lemma hash_lines_first_bad:
  "\<forall>l\<in>set pre. matches_pattern l \<Longrightarrow> \<not> matches_pattern line \<Longrightarrow>
   hash_lines (pre @ line # post) buf = atom_tokens line \<and> (\<exists>e. atom_tokens line = Inl e)"
proof (induction pre arbitrary: buf)
  case Nil
  then show ?case by (cases "atom_tokens line") (auto simp: atom_tokens_matches)
next
  case (Cons p pre)
  then show ?case by (simp add: atom_tokens_tokens_of)
qed

lemma hash_lines_some_bad:
  "line \<in> set lines \<Longrightarrow> \<not> matches_pattern line \<Longrightarrow> \<exists>e. hash_lines lines buf = Inl e"
proof (induction lines arbitrary: buf)
  case Nil
  then show ?case by simp
next
  case (Cons l lines)
  show ?case
  proof (cases "atom_tokens l")
    case (Inl e)
    then show ?thesis by simp
  next
    case (Inr t)
    then have "matches_pattern l" by (auto simp: atom_tokens_matches)
    with Cons.prems have "line \<in> set lines" by auto
    from Cons.IH[OF this Cons.prems(2)] Inr show ?thesis by simp
  qed
qed

lemma hash_lines_Inr:
  "hash_lines lines buf = Inr r \<Longrightarrow>
   (\<forall>l\<in>set lines. matches_pattern l) \<and> r = buf @ concat (map tokens_of lines)"
proof -
  assume r: "hash_lines lines buf = Inr r"
  have all: "\<forall>l\<in>set lines. matches_pattern l"
  proof (rule ccontr)
    assume "\<not> ?thesis"
    then obtain l where "l \<in> set lines" "\<not> matches_pattern l" by auto
    from hash_lines_some_bad[where buf=buf, OF this] r show False by auto
  qed
  with r show ?thesis by (simp add: hash_lines_all)
qed

lemma gro_hash_lines:
  "readlines content = name # count # lines @ [final] \<Longrightarrow>
   gro_hash content =
     (case py_int count of
        Inl e \<Rightarrow> Inl e
      | Inr n \<Rightarrow> (case hash_lines lines [] of
                    Inl e \<Rightarrow> Inl e
                  | Inr buf \<Rightarrow> Inr (md5 (name @ buf))))"
  by (simp add: gro_hash_def cong: sum.case_cong)

subsection \<open>The first match on a well-formed atom line\<close>



























lemmas char_classes = is_space_def is_digit_def is_word_def is_byte_space_def

lemmas pattern_pieces = pattern_match_def pattern_matches_def residue_token_def
  atom_token_def coordinates_def coordinate_def plus_def lit_def opt_def consumed_def

lemmas gro_pieces = gro_hash_def py_int_def digits_value_def atom_tokens_def decode_def
  strip_def strip_with_def LF_def

subsection \<open>Malformed atom lines\<close>

text \<open>
  Claim C4. Take any file of at least three lines and call atom lines the lines between
  the two header lines and the final line. If some atom line does not match the pattern
  (or does not even decode), \<open>gro_hash\<close> raises and returns no digest; when the count
  line is an integer and the lines before the first such line match, the exception is the
  one raised for that line, the parse error carrying the stripped line. Conversely a
  digest is only ever returned when every atom line matched, and it then covers the tokens
  of every atom line in file order: no line is left out.
\<close>

theorem gro_hash_never_skips_an_atom_line:
  assumes "readlines content = name # count # lines @ [final]"
  shows "(\<forall>line\<in>set lines. \<not> matches_pattern line \<longrightarrow> (\<exists>e. gro_hash content = Inl e)) \<and>
         (\<forall>pre line post n.
            lines = pre @ line # post \<and> (\<forall>l\<in>set pre. matches_pattern l) \<and>
            \<not> matches_pattern line \<and> py_int count = Inr n \<longrightarrow>
            gro_hash content = atom_tokens line \<and>
            (\<forall>text. decode line = Inr text \<longrightarrow>
               gro_hash content = Inl (Exception (''Error parsing line: '' @ strip text)))) \<and>
         (\<forall>digest. gro_hash content = Inr digest \<longrightarrow>
            (\<forall>line\<in>set lines. matches_pattern line) \<and>
            digest = md5 (name @ concat (map tokens_of lines)))"
proof (intro conjI ballI allI impI)
  fix line assume "line \<in> set lines" "\<not> matches_pattern line"
  from hash_lines_some_bad[OF this, of "[]"] show "\<exists>e. gro_hash content = Inl e"
    unfolding gro_hash_lines[OF assms] by (auto split: sum.splits)
next
  fix pre line post n
  assume h: "lines = pre @ line # post \<and> (\<forall>l\<in>set pre. matches_pattern l) \<and>
            \<not> matches_pattern line \<and> py_int count = Inr n"
  then have "hash_lines lines [] = atom_tokens line" "\<exists>e. atom_tokens line = Inl e"
    using hash_lines_first_bad[of pre line post "[]"] by auto
  with h show g: "gro_hash content = atom_tokens line"
    unfolding gro_hash_lines[OF assms] by auto
  fix decoded assume "decode line = Inr decoded"
  with h have "atom_tokens line = Inl (Exception (''Error parsing line: '' @ strip decoded))"
    by (cases "pattern_match (strip decoded)") (simp_all add: matches_pattern_def atom_tokens_def)
  with g show "gro_hash content = Inl (Exception (''Error parsing line: '' @ strip decoded))"
    by simp
next
  fix digest assume d: "gro_hash content = Inr digest"
  then obtain buf where "hash_lines lines [] = Inr buf" "digest = md5 (name @ buf)"
    unfolding gro_hash_lines[OF assms] by (auto split: sum.splits)
  with hash_lines_Inr[of lines "[]" buf]
  have r: "(\<forall>line\<in>set lines. matches_pattern line) \<and>
      digest = md5 (name @ concat (map tokens_of lines))" by simp
  from r show "digest = md5 (name @ concat (map tokens_of lines))" by simp
  fix line assume "line \<in> set lines"
  with r show "matches_pattern line" by simp
qed


lemma demo_gro_broken_lines:
  "readlines demo_gro_broken =
     (''Protein in water'' @ [LF]) # (''    2'' @ [LF]) #
     ([''    1ALA      N    1   1.000   2.000   3.000'' @ [LF]] @
      (''    1ALA     CA        1.100   2.100  -3.100'' @ [LF]) # []) @
     [''   4.00000   4.00000   4.00000'' @ [LF]]"
  by (simp add: demo_gro_broken_def LF_def)

theorem gro_hash_never_skips_an_atom_line_witness:
  "\<not> matches_pattern (''    1ALA     CA        1.100   2.100  -3.100'' @ [LF]) \<and>
   matches_pattern (''    1ALA      N    1   1.000   2.000   3.000'' @ [LF]) \<and>
   py_int (''    2'' @ [LF]) = Inr 2 \<and>
   gro_hash demo_gro_broken =
     Inl (Exception ''Error parsing line: 1ALA     CA        1.100   2.100  -3.100'')"
proof -
  have bad: "\<not> matches_pattern (''    1ALA     CA        1.100   2.100  -3.100'' @ [LF])"
    by (simp add: matches_pattern_def gro_pieces pattern_pieces char_classes)
  have good: "matches_pattern (''    1ALA      N    1   1.000   2.000   3.000'' @ [LF])"
    by (simp add: matches_pattern_def gro_pieces pattern_pieces char_classes)
  have count: "py_int (''    2'' @ [LF]) = Inr 2"
    by (simp add: gro_pieces char_classes)
  have dec: "decode (''    1ALA     CA        1.100   2.100  -3.100'' @ [LF]) =
      Inr (''    1ALA     CA        1.100   2.100  -3.100'' @ [LF])"
    by (simp add: gro_pieces)
  have st: "strip (''    1ALA     CA        1.100   2.100  -3.100'' @ [LF]) =
      ''1ALA     CA        1.100   2.100  -3.100''"
    by (simp add: gro_pieces char_classes)
  from gro_hash_never_skips_an_atom_line[OF demo_gro_broken_lines]
  have "\<forall>pre line post n.
          [''    1ALA      N    1   1.000   2.000   3.000'' @ [LF]] @
            (''    1ALA     CA        1.100   2.100  -3.100'' @ [LF]) # [] = pre @ line # post \<and>
          (\<forall>l\<in>set pre. matches_pattern l) \<and> \<not> matches_pattern line \<and>
          py_int (''    2'' @ [LF]) = Inr n \<longrightarrow>
          gro_hash demo_gro_broken = atom_tokens line \<and>
          (\<forall>text. decode line = Inr text \<longrightarrow>
             gro_hash demo_gro_broken = Inl (Exception (''Error parsing line: '' @ strip text)))"
    by (rule conjunct2[THEN conjunct1])
  from this[rule_format, of "[''    1ALA      N    1   1.000   2.000   3.000'' @ [LF]]"
      "''    1ALA     CA        1.100   2.100  -3.100'' @ [LF]" "[]" 2, THEN conjunct2, rule_format, OF _ dec]
    bad good count st
  show ?thesis by simp
qed

subsection \<open>The count line and the final line\<close>

text \<open>
  Claim C10. The digest depends neither on the atom-count line nor on the final line: two
  files with the same title line and the same atom lines get the same digest whenever
  both get one, whatever their second and last lines are; and they get the same result
  altogether as soon as both count lines are integers (the count is parsed, which raises
  \<open>ValueError\<close> on anything else, but it is compared with nothing).
\<close>

theorem gro_hash_ignores_count_and_final_line:
  assumes "readlines f = name # count1 # lines @ [final1]"
    and "readlines g = name # count2 # lines @ [final2]"
  shows "(\<forall>d1 d2. gro_hash f = Inr d1 \<and> gro_hash g = Inr d2 \<longrightarrow> d1 = d2) \<and>
         ((\<exists>n1. py_int count1 = Inr n1) \<and> (\<exists>n2. py_int count2 = Inr n2) \<longrightarrow>
            gro_hash f = gro_hash g)"
  unfolding gro_hash_lines[OF assms(1)] gro_hash_lines[OF assms(2)]
  by (auto split: sum.splits)

lemma demo_gro_lines:
  "readlines demo_gro =
     (''Protein in water'' @ [LF]) # (''    2'' @ [LF]) # map render demo_atoms @
     [''   4.00000   4.00000   4.00000'' @ [LF]]"
  by (simp add: demo_gro_def LF_def demo_atoms_def render_def)


lemma demo_gro_recounted_lines:
  "readlines demo_gro_recounted =
     (''Protein in water'' @ [LF]) # (''7'' @ [LF]) # map render demo_atoms @
     [''   9.5 9.5 9.5'' @ [LF]]"
  by (simp add: demo_gro_recounted_def LF_def demo_atoms_def render_def)

theorem gro_hash_ignores_count_and_final_line_witness:
  "py_int (''    2'' @ [LF]) = Inr 2 \<and> py_int (''7'' @ [LF]) = Inr 7 \<and>
   ''    2'' @ [LF] \<noteq> ''7'' @ [LF] \<and>
   ''   4.00000   4.00000   4.00000'' @ [LF] \<noteq> ''   9.5 9.5 9.5'' @ [LF] \<and>
   gro_hash demo_gro = gro_hash demo_gro_recounted"
proof -
  have c1: "py_int (''    2'' @ [LF]) = Inr 2" by (simp add: gro_pieces char_classes)
  have c2: "py_int (''7'' @ [LF]) = Inr 7" by (simp add: gro_pieces char_classes)
  from gro_hash_ignores_count_and_final_line[OF demo_gro_lines demo_gro_recounted_lines] c1 c2
  show ?thesis by simp
qed

subsection \<open>What the digest depends on\<close>




section \<open>Properties of \<open>run_cmd_commands\<close>\<close>









section \<open>Properties of \<open>forward\<close>\<close>

lemmas forward_pieces = forward_round_def choose_pdb_id_def round_with_def dispatch_def
  attempt_def try_block_def except_clause_def finally_clause_def protein_arguments_def
  pinned_or_sampled_def getitem_def has_key_def dict_update_def parse_config_def
  random_choice_def initial_frame_def Let_def

subsection \<open>Dictionaries and effects\<close>




subsection \<open>A round in which every preparation fails\<close>





lemma demo_select:
  "select_random_pdb_id (rng (demo_env c p)) (PDB_IDS (demo_env c p)) (Suc 0) = Some (''1abc'', 3)"
  by (simp add: select_random_pdb_id.simps demo_env_def random_choice_def)


subsection \<open>The structure id of the protein\<close>

text \<open>
  In every round and every environment each call of \<open>Protein\<close> passes
  \<open>config.protein.pdb_id\<close> as the structure id, pinned or not.
\<close>

lemma constructed_append: "constructed (xs @ ys) = constructed xs @ constructed ys"
  by (induction xs rule: constructed.induct) simp_all

lemma built_refl: "trace fr' = trace fr \<Longrightarrow> built_from_config cfg fr fr'"
  by (simp add: built_from_config_def)

lemma built_trans:
  "built_from_config cfg a b \<Longrightarrow> built_from_config cfg b c \<Longrightarrow> built_from_config cfg a c"
  unfolding built_from_config_def by (elim exE conjE, rule_tac x="new @ newa" in exI) auto

lemma protein_arguments_pdb_id:
  "protein_arguments cfg c = Inr args \<Longrightarrow> pdb_id args = protein_pdb_id (config_protein cfg)"
  by (auto simp: protein_arguments_def split: sum.splits)

lemma try_block_built: "try_block E cfg h fr = (r, fr') \<Longrightarrow> built_from_config cfg fr fr'"
  by (auto simp: try_block_def built_from_config_def constructed_append Let_def
      dest: protein_arguments_pdb_id split: prod.splits sum.splits)

lemma finally_built:
  "finally_clause E t0 ts chosen pending event fr = (fr', c) \<Longrightarrow> built_from_config cfg fr fr'"
  by (auto simp: finally_clause_def built_from_config_def constructed_append Let_def
      split: option.splits prod.splits if_splits)

lemma attempt_built: "attempt E cfg t0 chosen h fr = (fr', c) \<Longrightarrow> built_from_config cfg fr fr'"
proof -
  assume a: "attempt E cfg t0 chosen h fr = (fr', c)"
  obtain ts w0 where t: "time E (world fr) = (ts, w0)" by (cases "time E (world fr)")
  obtain r fr1 where tb: "try_block E cfg h (fr\<lparr>world := w0, local_event := Some []\<rparr>) = (r, fr1)"
    by (cases "try_block E cfg h (fr\<lparr>world := w0, local_event := Some []\<rparr>)")
  have 1: "built_from_config cfg fr (fr\<lparr>world := w0, local_event := Some []\<rparr>)"
    by (rule built_refl) simp
  have 2: "built_from_config cfg (fr\<lparr>world := w0, local_event := Some []\<rparr>) fr1"
    using tb by (rule try_block_built)
  have 3: "built_from_config cfg fr1 fr'"
    using a t tb by (auto simp: attempt_def split: option.splits prod.splits dest: finally_built)
  from 1 2 3 show ?thesis by (blast intro: built_trans)
qed

lemma search_built: "search E cfg t0 chosen h k fr = (fr', c) \<Longrightarrow> built_from_config cfg fr fr'"
proof (induction k arbitrary: fr)
  case 0
  then show ?case by (simp add: built_refl)
next
  case (Suc k)
  obtain fr1 c1 where a: "attempt E cfg t0 chosen h fr = (fr1, c1)"
    by (cases "attempt E cfg t0 chosen h fr")
  show ?case
  proof (cases c1)
    case Continue
    with Suc.prems a have "search E cfg t0 chosen h k fr1 = (fr', c)" by simp
    from Suc.IH[OF this] attempt_built[OF a] show ?thesis by (blast intro: built_trans)
  next
    case Break
    with Suc.prems a attempt_built[OF a] show ?thesis by simp
  next
    case (Raise e)
    with Suc.prems a attempt_built[OF a] show ?thesis by simp
  qed
qed

lemma dispatch_built: "built_from_config cfg fr (frame_of (dispatch E cfg t0 fr))"
  by (auto simp: dispatch_def built_from_config_def constructed_append Let_def
      split: option.splits sum.splits prod.splits)

lemma round_with_built: "built_from_config cfg fr (frame_of (round_with E cfg t0 chosen fr))"
proof (cases "HyperParameters E (parse_config cfg) (world fr)")
  case (Pair r w1)
  show ?thesis
  proof (cases r)
    case (Inl e)
    with Pair show ?thesis by (simp add: round_with_def built_refl)
  next
    case (Inr h)
    obtain fr1 c where s: "search E cfg t0 chosen h (TOTAL_COMBINATIONS E h) (fr\<lparr>world := w1\<rparr>) = (fr1, c)"
      by (cases "search E cfg t0 chosen h (TOTAL_COMBINATIONS E h) (fr\<lparr>world := w1\<rparr>)")
    have 1: "built_from_config cfg fr (fr\<lparr>world := w1\<rparr>)" by (rule built_refl) simp
    note 2 = search_built[OF s]
    have 3: "built_from_config cfg fr1 (frame_of (round_with E cfg t0 chosen fr))"
      using Pair Inr s dispatch_built[of cfg fr1 E t0]
      by (cases c) (simp_all add: round_with_def built_refl)
    from 1 2 3 show ?thesis by (blast intro: built_trans)
  qed
qed

lemma forward_round_built:
  "forward_round E cfg fr = Some r \<Longrightarrow>
   \<exists>new. constructed (trace (frame_of r)) = constructed (trace fr) @ new \<and>
         (\<forall>a\<in>set new. pdb_id a = protein_pdb_id (config_protein cfg))"
proof -
  assume a: "forward_round E cfg fr = Some r"
  obtain t0 w1 where t: "time E (world fr) = (t0, w1)" by (cases "time E (world fr)")
  from a t obtain chosen w2 where "r = round_with E cfg t0 chosen (fr\<lparr>world := w2\<rparr>)"
    by (auto simp: forward_round_def split: option.splits)
  then have "built_from_config cfg (fr\<lparr>world := w2\<rparr>) (frame_of r)"
    by (simp add: round_with_built)
  then show ?thesis by (simp add: built_from_config_def)
qed

lemma demo_time: "time (demo_env c p) = (\<lambda>w. (real w, w + 1))"
  by (simp add: demo_env_def)

lemma demo_round_unpinned:
  "forward_round (demo_env (\<lambda>a. True) (\<lambda>p. True)) (demo_config None) (initial_frame 0) =
     Some (Next
       \<lparr>world = 12,
        local_event = Some
          [(''pdb_id'', VStr ''1abc''), (''FF'', VStr ''amber03''), (''WATER'', VStr ''tip3p''),
           (''BOX'', VStr ''cubic''), (''BOX_DISTANCE'', VNum 1), (''hp_sample_time'', VNum 4),
           (''forward_time'', VNum 11), (''validator_search_status'', VBool True),
           (''uids'', VList [VInt 9, VInt 10])],
        local_sampled_combination = Some
          [(''FF'', VStr ''amber03''), (''WATER'', VStr ''tip3p''), (''BOX'', VStr ''cubic''),
           (''BOX_DISTANCE'', VNum 1)],
        local_protein = Some
          \<lparr>pdb_id = None, ff = VStr ''amber03'', water = VStr ''tip3p'', box = VStr ''cubic'',
           config = config_protein (demo_config None)\<rparr>,
        local_hps = Some
          [(''FF'', VStr ''amber03''), (''WATER'', VStr ''tip3p''), (''BOX'', VStr ''cubic''),
           (''BOX_DISTANCE'', VNum 1)],
        trace =
          [Protein_init \<lparr>pdb_id = None, ff = VStr ''amber03'', water = VStr ''tip3p'',
             box = VStr ''cubic'', config = config_protein (demo_config None)\<rparr>,
           Protein_forward \<lparr>pdb_id = None, ff = VStr ''amber03'', water = VStr ''tip3p'',
             box = VStr ''cubic'', config = config_protein (demo_config None)\<rparr>,
           Run_step \<lparr>pdb_id = None, ff = VStr ''amber03'', water = VStr ''tip3p'',
             box = VStr ''cubic'', config = config_protein (demo_config None)\<rparr>,
           Log_event
             [(''pdb_id'', VStr ''1abc''), (''FF'', VStr ''amber03''), (''WATER'', VStr ''tip3p''),
              (''BOX'', VStr ''cubic''), (''BOX_DISTANCE'', VNum 1), (''hp_sample_time'', VNum 4),
              (''forward_time'', VNum 11), (''validator_search_status'', VBool True),
              (''uids'', VList [VInt 9, VInt 10])]]\<rparr>)"
  by (simp add: forward_round_def choose_pdb_id_def demo_config_def initial_frame_def
        demo_time demo_select)
    (simp add: forward_pieces demo_env_def numeral_2_eq_2)

text \<open>
  Claim C2 asks that the protein which a round prepares and dispatches be constructed
  with the structure id chosen for the round: the pinned id, or else the randomly
  selected one. The call is \<open>Protein(pdb_id=self.config.protein.pdb_id, ...)\<close>, so with
  no pinned id the protein is constructed with \<open>None\<close>. In the round below the pool
  yields the id \<open>1abc\<close>, which is the \<open>pdb_id\<close> of the logged event, while the
  protein that was constructed, prepared and handed to \<open>run_step\<close> carries no id.
\<close>

theorem protein_is_built_without_the_chosen_id:
  "choose_pdb_id (demo_env (\<lambda>a. True) (\<lambda>p. True)) (demo_config None) (Suc 0) = Some (''1abc'', 3) \<and>
   (case forward_round (demo_env (\<lambda>a. True) (\<lambda>p. True)) (demo_config None) (initial_frame 0) of
      Some (Next fr) \<Rightarrow>
        map pdb_id (constructed (trace fr)) = [None] \<and>
        map pdb_id (dispatched (trace fr)) = [None] \<and>
        map (\<lambda>event. map_of event ''pdb_id'') (logged (trace fr)) = [Some (VStr ''1abc'')]
    | _ \<Rightarrow> False)"
  by (simp add: demo_round_unpinned) (simp add: choose_pdb_id_def demo_config_def demo_select)

subsection \<open>An attempt that fails before \<open>hps\<close> is assigned\<close>

lemma demo_round_crash:
  "forward_round (demo_env (\<lambda>a. ff a \<noteq> VStr ''amber03'') (\<lambda>p. True)) (demo_config (Some ''1abc''))
     (initial_frame 0) =
     Some (Raised (UnboundLocalError ''hps'')
       \<lparr>world = 5,
        local_event = Some [(''validator_search_status'', VBool False), (''pdb_id'', VStr ''1abc'')],
        local_sampled_combination = Some
          [(''FF'', VStr ''amber03''), (''WATER'', VStr ''tip3p''), (''BOX'', VStr ''cubic''),
           (''BOX_DISTANCE'', VNum 1)],
        local_protein = None, local_hps = None,
        trace =
          [Protein_init \<lparr>pdb_id = Some ''1abc'', ff = VStr ''amber03'', water = VStr ''tip3p'',
             box = VStr ''cubic'', config = config_protein (demo_config (Some ''1abc''))\<rparr>]\<rparr>)"
  by (simp add: forward_pieces demo_config_def demo_env_def numeral_2_eq_2)

text \<open>
  Claim C7 asks that every attempt, wherever an exception is raised in it, produce exactly
  one diagnostic event. The \<open>finally\<close> clause runs \<open>event.update(hps)\<close>, and \<open>hps\<close>
  is assigned only after the protein has been constructed. In the run below the
  constructor raises in the first attempt of the first round: the \<open>finally\<close> clause
  finds \<open>hps\<close> unbound, its \<open>UnboundLocalError\<close> leaves the attempt, the round and
  \<open>forward\<close>, and nothing has been logged.
\<close>

theorem failed_first_attempt_escapes_without_event:
  "(case forward_round (demo_env (\<lambda>a. ff a \<noteq> VStr ''amber03'') (\<lambda>p. True))
           (demo_config (Some ''1abc'')) (initial_frame 0) of
      Some (Raised e fr) \<Rightarrow>
        e = UnboundLocalError ''hps'' \<and> length (constructed (trace fr)) = 1 \<and>
        logged (trace fr) = []
    | _ \<Rightarrow> False) \<and>
   map_option fst (forward (demo_env (\<lambda>a. ff a \<noteq> VStr ''amber03'') (\<lambda>p. True))
           (demo_config (Some ''1abc'')) (initial_frame 0)) =
     Some (UnboundLocalError ''hps'')"
  by (subst forward.simps) (simp add: demo_round_crash)

end
